theory Spec2Isabelle
  imports Complex_Main
begin

section \<open>Updatable, weighted random forest\<close>

text \<open>
  The notebook \<^verbatim>\<open>updatable_random_forest.ipynb\<close> defines one class,
  \<^verbatim>\<open>UpdatableRandomForestClassifier(RandomForestClassifier)\<close>, with the methods
  \<^verbatim>\<open>__init__\<close>, \<^verbatim>\<open>fit_new_data\<close>, \<^verbatim>\<open>predict_votes\<close> and \<^verbatim>\<open>score_votes\<close>.
  The class is embedded as a record that extends the record of the base class, its
  methods as functions that take the object and return the result together with the
  object as the call leaves it. A Python exception is a value \<open>Inl e\<close>.

  The calls into numpy, scipy and scikit-learn are embedded as functions of their own
  (\<open>np_repeat\<close>, \<open>np_concatenate\<close>, \<open>np_repeat_axis0\<close>, \<open>np_eq\<close>, \<open>np_take\<close>,
  \<open>mode\<close>, \<open>fit\<close>), each with the
  library behaviour it stands for written next to it. Growing the trees is the one part taken
  as a parameter (\<open>train\<close>).
\<close>

subsection \<open>Errors, members, keyword arguments\<close>

datatype error =
    ValueError | TypeError | IndexError | AttributeError | NameError
  | ZeroDivisionError | NotFittedError

text \<open>
  A member is a fitted decision tree. The ensemble only ever calls its \<^verbatim>\<open>predict\<close>, which
  maps each sample on its own to a class index (scikit-learn grows the trees of a forest on
  labels encoded as \<open>0, 1, \<dots>\<close>; the index comes back as a whole-valued float, which
  \<^verbatim>\<open>astype('int64')\<close> turns into the same integer). A tree is therefore identified with the
  function from a sample to its class index.
\<close>

type_synonym 'x tree = "'x \<Rightarrow> int"

text \<open>
  \<^verbatim>\<open>**kwargs\<close>: the two keys the code of the notebook reads or passes by name, and the
  remaining configuration (\<^verbatim>\<open>random_state\<close>, \<dots>), which only the tree trainer reads.
\<close>

record 'k kwargs =
  kw_n_estimators :: "int option"
  kw_init_vote_weight :: "int option"
  kw_other :: 'k

subsection \<open>The base class\<close>

text \<open>
  The fitted attributes \<^verbatim>\<open>estimators_\<close> and \<^verbatim>\<open>classes_\<close> are the fields
  \<open>estimators\<close> and \<open>classes\<close> (a name cannot end in an underscore here); they are
  \<open>None\<close> as long as the attribute does not exist.
\<close>

record ('k, 'x, 'l) forest =
  params :: 'k
  n_estimators :: int
  estimators :: "'x tree list option"
  classes :: "'l list option"

text \<open>
  \<^verbatim>\<open>RandomForestClassifier(**kwargs)\<close>: stores its parameters, \<^verbatim>\<open>n_estimators\<close> being 10
  when not given; the fitted attributes do not exist yet. It has no parameter
  \<^verbatim>\<open>init_vote_weight\<close>, so that key is a \<^verbatim>\<open>TypeError\<close>.
\<close>

definition RandomForestClassifier :: "'k kwargs \<Rightarrow> error + ('k, 'x, 'l) forest" where
  "RandomForestClassifier kwargs =
     (if kw_init_vote_weight kwargs \<noteq> None then Inl TypeError
      else Inr \<lparr> params = kw_other kwargs,
                 n_estimators = (case kw_n_estimators kwargs of None \<Rightarrow> 10 | Some n \<Rightarrow> n),
                 estimators = None,
                 classes = None \<rparr>)"

text \<open>
  The tree trainer, a parameter: from the configuration and the training data it either
  rejects the data or gives the class table (the sorted distinct labels of the data) and, for
  each position in the forest, the tree grown there.
\<close>

type_synonym ('k, 'd, 'x, 'l) trainer = "'k \<Rightarrow> 'd \<Rightarrow> error + ((nat \<Rightarrow> 'x tree) \<times> 'l list)"

text \<open>
  \<^verbatim>\<open>RandomForestClassifier.fit(X, y)\<close>, inherited by the subclass: validates the data, sets
  \<^verbatim>\<open>classes_\<close> (and \<^verbatim>\<open>n_outputs_\<close>), refuses \<^verbatim>\<open>n_estimators <= 0\<close> with a
  \<^verbatim>\<open>ValueError\<close>, then sets \<^verbatim>\<open>estimators_\<close> to \<^verbatim>\<open>n_estimators\<close> freshly grown trees.
\<close>

definition fit ::
  "('k, 'd, 'x, 'l) trainer \<Rightarrow> 'd \<Rightarrow> ('k, 'x, 'l, 'z) forest_scheme
     \<Rightarrow> (error + unit) \<times> ('k, 'x, 'l, 'z) forest_scheme" where
  "fit train d self =
     (case train (params self) d of
        Inl e \<Rightarrow> (Inl e, self)
      | Inr (grow, cls) \<Rightarrow>
          (let self1 = self\<lparr>classes := Some cls\<rparr> in
           if n_estimators self1 \<le> 0 then (Inl ValueError, self1)
           else (Inr (),
                 self1\<lparr>estimators := Some (map grow [0..<nat (n_estimators self1)])\<rparr>)))"

subsection \<open>numpy and scipy\<close>

text \<open>
  An array of numbers is its dtype and its entries. The arrays of weights only ever receive
  whole numbers, so an entry is given by its value, and the dtype says how the value is
  stored: as a signed or an unsigned 64-bit integer, as a double, or as a Python object.
  The memory that an array needs is not part of the model.
\<close>

datatype dtype = int64 | uint64 | float64 | object

record ndarray =
  dtype :: dtype
  data :: "int list"

text \<open>
  The dtype that numpy gives to a Python integer: \<^verbatim>\<open>int64\<close> when it fits, \<^verbatim>\<open>uint64\<close>
  from \<open>2\<^sup>6\<^sup>3\<close> up to \<open>2\<^sup>6\<^sup>4 - 1\<close>, and \<^verbatim>\<open>object\<close> beyond.
\<close>

definition fits_int64 :: "int \<Rightarrow> bool" where
  "fits_int64 v \<longleftrightarrow> - (2 ^ 63) \<le> v \<and> v < 2 ^ 63"

definition dtype_of_int :: "int \<Rightarrow> dtype" where
  "dtype_of_int v =
     (if fits_int64 v then int64
      else if 2 ^ 63 \<le> v \<and> v < 2 ^ 64 then uint64
      else object)"

text \<open>
  \<^verbatim>\<open>np.repeat(a, n)\<close> for a Python integer \<open>a\<close>: \<open>n\<close> copies, in the dtype of \<open>a\<close>; a
  negative count is an error.
\<close>

definition np_repeat :: "int \<Rightarrow> int \<Rightarrow> error + ndarray" where
  "np_repeat a n =
     (if n < 0 then Inl ValueError
      else Inr \<lparr> dtype = dtype_of_int a, data = replicate (nat n) a \<rparr>)"

text \<open>
  The common dtype of two arrays: \<^verbatim>\<open>object\<close> wins over all, then \<^verbatim>\<open>float64\<close>; a signed
  and an unsigned 64-bit integer have no common integer type and meet in \<^verbatim>\<open>float64\<close>.
\<close>

definition promote_types :: "dtype \<Rightarrow> dtype \<Rightarrow> dtype" where
  "promote_types s t =
     (if s = object \<or> t = object then object
      else if s = float64 \<or> t = float64 then float64
      else if s = t then s
      else float64)"

text \<open>
  The double nearest to a whole number, ties to the even mantissa: a number of more than 53
  bits keeps its 53 leading bits, rounded. (The numbers that are converted here are below
  \<open>2\<^sup>6\<^sup>4\<close> in size, far from the overflow of a double.)
\<close>

function bit_length :: "int \<Rightarrow> nat" where
  "bit_length n = (if n \<le> 0 then 0 else Suc (bit_length (n div 2)))"
  by pat_completeness auto
termination
  by (relation "measure nat") auto

declare bit_length.simps [simp del]

definition float64_of_int :: "int \<Rightarrow> int" where
  "float64_of_int v =
     (let a = \<bar>v\<bar>;
          q = 2 ^ (bit_length a - 53);
          lo = a div q;
          r = a mod q;
          m = (if 2 * r < q \<or> (2 * r = q \<and> even lo) then lo else lo + 1)
      in sgn v * (m * q))"

text \<open>
  The conversion of an array to the common dtype: the values stay as they are, except that
  integers stored as doubles are rounded.
\<close>

definition astype :: "dtype \<Rightarrow> ndarray \<Rightarrow> ndarray" where
  "astype t a =
     \<lparr> dtype = t,
       data = (if t = float64 \<and> dtype a \<noteq> float64 then map float64_of_int (data a)
               else data a) \<rparr>"

text \<open>\<^verbatim>\<open>np.concatenate([a, b])\<close>: both arrays in their common dtype, one after the other.\<close>

definition np_concatenate :: "ndarray \<Rightarrow> ndarray \<Rightarrow> ndarray" where
  "np_concatenate a b =
     (let t = promote_types (dtype a) (dtype b)
      in \<lparr> dtype = t, data = data (astype t a) @ data (astype t b) \<rparr>)"

text \<open>
  \<^verbatim>\<open>np.repeat(a, repeats, axis=0)\<close> for a two-dimensional \<open>a\<close> (a list of rows). The counts
  must convert safely to the index type, which of the four dtypes only \<^verbatim>\<open>int64\<close> does; the
  others are a \<^verbatim>\<open>TypeError\<close>. Then row \<open>i\<close> is repeated \<open>repeats[i]\<close> times, in place.
  \<open>repeats\<close> of length one is broadcast to every row; any other length that is not the number
  of rows, and any negative count, is an error.
\<close>

definition np_repeat_axis0 :: "'a list \<Rightarrow> ndarray \<Rightarrow> error + 'a list" where
  "np_repeat_axis0 a repeats =
     (if dtype repeats \<noteq> int64 then Inl TypeError
      else if \<exists>r \<in> set (data repeats). r < 0 then Inl ValueError
      else if length (data repeats) = length a
        then Inr (concat (map (\<lambda>(row, r). replicate (nat r) row) (zip a (data repeats))))
      else if length (data repeats) = 1
        then Inr (concat (map (replicate (nat (hd (data repeats)))) a))
      else Inl ValueError)"

text \<open>
  \<^verbatim>\<open>scipy.stats.mode(a, axis=0)\<close>. An array without entries gives two empty arrays.
  Otherwise \<open>scores\<close> are the sorted distinct values of the whole array, and for every column
  the loop
  \<^verbatim>\<open>
    for score in scores:
        counts = sum(a == score)
        mostfrequent = where(counts > oldcounts, score, oldmostfreq)
        oldcounts = maximum(counts, oldcounts)
        oldmostfreq = mostfrequent
  \<close>
  runs from \<open>(0, 0)\<close>. The result is a pair of arrays with one row.
\<close>

definition mode_step :: "int list \<Rightarrow> int \<Rightarrow> int \<times> nat \<Rightarrow> int \<times> nat" where
  "mode_step col score = (\<lambda>(oldmostfreq, oldcounts).
     let counts = count_list col score
     in (if counts > oldcounts then score else oldmostfreq, max counts oldcounts))"

definition column :: "nat \<Rightarrow> 'a list list \<Rightarrow> 'a list" where
  "column j a = map (\<lambda>row. row ! j) a"

definition mode :: "int list list \<Rightarrow> int list list \<times> nat list list" where
  "mode a =
     (if a = [] \<or> hd a = [] then ([], [])
      else
        (let scores = sort (remdups (concat a));
             res = map (\<lambda>j. fold (mode_step (column j a)) scores (0, 0)) [0..<length (hd a)]
         in ([map fst res], [map snd res])))"

text \<open>
  \<^verbatim>\<open>a.take(indices, axis=0)\<close> for a one-dimensional \<open>a\<close>, in the default mode \<^verbatim>\<open>'raise'\<close>:
  an index counts from the end when negative and is an \<^verbatim>\<open>IndexError\<close> out of range.
\<close>

definition np_take :: "'a list \<Rightarrow> int list \<Rightarrow> error + 'a list" where
  "np_take a indices =
     (let n = int (length a)
      in if \<forall>i \<in> set indices. - n \<le> i \<and> i < n
         then Inr (map (\<lambda>i. a ! nat (if i < 0 then i + n else i)) indices)
         else Inl IndexError)"

text \<open>
  \<^verbatim>\<open>sum(p == y)\<close> for one-dimensional \<open>p\<close> and \<open>y\<close>. Equal lengths compare position by
  position; a side of length one is broadcast against the other; otherwise the comparison
  gives the scalar \<^verbatim>\<open>False\<close>, over which \<^verbatim>\<open>sum\<close> raises a \<^verbatim>\<open>TypeError\<close>.
\<close>

definition np_eq :: "'a list \<Rightarrow> 'a list \<Rightarrow> error + bool list" where
  "np_eq p y =
     (if length p = length y then Inr (map (\<lambda>(a, b). a = b) (zip p y))
      else if length p = 1 then Inr (map (\<lambda>b. hd p = b) y)
      else if length y = 1 then Inr (map (\<lambda>a. a = hd y) p)
      else Inl TypeError)"

subsection \<open>The class of the notebook\<close>

record ('k, 'x, 'l) updatable_forest = "('k, 'x, 'l) forest" +
  vote_weights :: ndarray

text \<open>
  \<^verbatim>\<open>__init__(self, **kwargs)\<close>: pops \<^verbatim>\<open>init_vote_weight\<close> (default 1), runs the base
  constructor on the rest, and allocates one weight per tree still to be fitted.
\<close>

definition UpdatableRandomForestClassifier ::
  "'k kwargs \<Rightarrow> error + ('k, 'x, 'l) updatable_forest" where
  "UpdatableRandomForestClassifier kwargs =
     (let init_vote_weight = (case kw_init_vote_weight kwargs of None \<Rightarrow> 1 | Some w \<Rightarrow> w)
      in case RandomForestClassifier (kwargs\<lparr>kw_init_vote_weight := None\<rparr>) of
           Inl e \<Rightarrow> Inl e
         | Inr base \<Rightarrow>
             (case np_repeat init_vote_weight (n_estimators base) of
                Inl e \<Rightarrow> Inl e
              | Inr ws \<Rightarrow> Inr (forest.extend base (updatable_forest.fields ws))))"

text \<open>
  \<^verbatim>\<open>fit_new_data(self, X, y, vote_weight=1, **kwargs)\<close>. The three assignments run in the
  order of the source, so an object without \<^verbatim>\<open>estimators_\<close> fails at the second one with
  \<^verbatim>\<open>n_estimators\<close> already increased.
\<close>

definition fit_new_data ::
  "('k, 'd, 'x, 'l) trainer \<Rightarrow> 'd \<Rightarrow> int \<Rightarrow> 'k kwargs \<Rightarrow> ('k, 'x, 'l) updatable_forest
     \<Rightarrow> (error + unit) \<times> ('k, 'x, 'l) updatable_forest" where
  "fit_new_data train d vote_weight kwargs self =
     (case RandomForestClassifier kwargs of
        Inl e \<Rightarrow> (Inl e, self)
      | Inr (fresh :: ('k, 'x, 'l) forest) \<Rightarrow>
          (case fit train d fresh of
             (Inl e, _) \<Rightarrow> (Inl e, self)
           | (Inr _, new_trees) \<Rightarrow>
               (case np_repeat vote_weight (n_estimators new_trees) of
                  Inl e \<Rightarrow> (Inl e, self)
                | Inr new_tree_weights \<Rightarrow>
                    (let self1 = self\<lparr>n_estimators :=
                                        n_estimators self + n_estimators new_trees\<rparr>
                     in case (estimators self1, estimators new_trees) of
                          (Some old, Some new) \<Rightarrow>
                            (Inr (),
                             (self1\<lparr>estimators := Some (old @ new)\<rparr>)
                               \<lparr>vote_weights :=
                                  np_concatenate (vote_weights self1) new_tree_weights\<rparr>)
                        | _ \<Rightarrow> (Inl AttributeError, self1)))))"

text \<open>
  \<^verbatim>\<open>predict_votes(self, X)\<close>, in two parts. The first part is the method down to the line
  \<^verbatim>\<open>all_preds = np.repeat(all_preds, self.vote_weights, axis=0)\<close>, and gives the array
  that this line assigns. \<^verbatim>\<open>check_is_fitted\<close> asks for \<^verbatim>\<open>n_outputs_\<close>, which
  \<^verbatim>\<open>fit\<close> sets together with \<^verbatim>\<open>classes_\<close>; \<^verbatim>\<open>check_array\<close> refuses an array without
  samples; \<^verbatim>\<open>_partition_estimators\<close> only computes the number of jobs, the smaller of
  \<^verbatim>\<open>n_jobs\<close> and \<^verbatim>\<open>n_estimators\<close>: it divides by that number and allocates an array
  of that length, so it fails when \<^verbatim>\<open>n_estimators\<close> is zero or negative; the parallel
  loop gives one row of class indices per tree.
\<close>

definition all_preds :: "('k, 'x, 'l) updatable_forest \<Rightarrow> 'x list \<Rightarrow> error + int list list" where
  "all_preds self X =
     (case classes self of
        None \<Rightarrow> Inl NotFittedError
      | Some cls \<Rightarrow>
          if X = [] then Inl ValueError
          else if n_estimators self = 0 then Inl ZeroDivisionError
          else if n_estimators self < 0 then Inl ValueError
          else
            (case estimators self of
               None \<Rightarrow> Inl AttributeError
             | Some es \<Rightarrow> np_repeat_axis0 (map (\<lambda>e. map e X) es) (vote_weights self)))"

text \<open>
  The second part takes the modes of that array, drops the counts, and reads the first row
  as indices into \<^verbatim>\<open>classes_\<close>.
\<close>

definition predict_votes :: "('k, 'x, 'l) updatable_forest \<Rightarrow> 'x list \<Rightarrow> error + 'l list" where
  "predict_votes self X =
     (case all_preds self X of
        Inl e \<Rightarrow> Inl e
      | Inr weighted \<Rightarrow>
          (case fst (mode weighted) of
             [] \<Rightarrow> Inl IndexError
           | modes # _ \<Rightarrow>
               (case classes self of
                  None \<Rightarrow> Inl AttributeError
                | Some cls \<Rightarrow> np_take cls modes)))"

text \<open>
  \<^verbatim>\<open>score_votes(self, X, y)\<close> is \<^verbatim>\<open>sum(rf.predict_votes(X) == y) / len(y)\<close>: the name
  \<^verbatim>\<open>rf\<close> is looked up in the globals of the notebook (a \<^verbatim>\<open>NameError\<close> when unbound), the
  sum is computed before the length, and \<^verbatim>\<open>/\<close> is the true division of Python 3, whose
  exact quotient is given here as a rational.
\<close>

definition score_votes ::
  "('k, 'x, 'l) updatable_forest option \<Rightarrow> ('k, 'x, 'l) updatable_forest
     \<Rightarrow> 'x list \<Rightarrow> 'l list \<Rightarrow> error + rat" where
  "score_votes rf self X y =
     (case rf of
        None \<Rightarrow> Inl NameError
      | Some rf_obj \<Rightarrow>
          (case predict_votes rf_obj X of
             Inl e \<Rightarrow> Inl e
           | Inr p \<Rightarrow>
               (case np_eq p y of
                  Inl e \<Rightarrow> Inl e
                | Inr eq \<Rightarrow>
                    if length y = 0 then Inl ZeroDivisionError
                    else Inr (of_nat (count_list eq True) / of_nat (length y)))))"

subsection \<open>The lifetime of an ensemble\<close>

text \<open>The number of trees that \<^verbatim>\<open>RandomForestClassifier(**kwargs)\<close> is asked to fit.\<close>

definition new_batch_size :: "'k kwargs \<Rightarrow> int" where
  "new_batch_size kwargs = (case kw_n_estimators kwargs of None \<Rightarrow> 10 | Some n \<Rightarrow> n)"

text \<open>
  A run of \<^verbatim>\<open>fit_new_data\<close> calls on one object, as in the last cell of the notebook. A
  call that raises leaves the object as it was when the exception left the method.
\<close>

definition appends ::
  "('k, 'd, 'x, 'l) trainer \<Rightarrow> ('d \<times> int \<times> 'k kwargs) list \<Rightarrow> ('k, 'x, 'l) updatable_forest
     \<Rightarrow> ('k, 'x, 'l) updatable_forest" where
  "appends train calls s =
     fold (\<lambda>(d, w, kwargs) s. snd (fit_new_data train d w kwargs s)) calls s"

subsection \<open>The specification's vocabulary\<close>





text \<open>
  The number of positions at which the predictions and the true labels agree, the numerator
  of the accuracy that the specification gives for \<open>ScoreVotes\<close>.
\<close>

definition matches :: "'a list \<Rightarrow> 'a list \<Rightarrow> nat" where
  "matches p y = length (filter (\<lambda>(a, b). a = b) (zip p y))"

subsection \<open>Example ensembles\<close>

text \<open>
  Samples are numbers and the class table is \<open>[0, 1]\<close>. The example trainer grows trees that
  all vote for the class index given as its data.
\<close>

definition kw_trees :: "int \<Rightarrow> unit kwargs" where
  "kw_trees n = \<lparr> kw_n_estimators = Some n, kw_init_vote_weight = None, kw_other = () \<rparr>"

definition const_trainer :: "(unit, int, nat, int) trainer" where
  "const_trainer k d = Inr (\<lambda>i x. d, [0, 1])"

text \<open>Scenario B: five members of weight 1 voting \<open>[0, 0, 0, 1, 1]\<close> on every sample.\<close>

definition scenario_B :: "(unit, nat, int) updatable_forest" where
  "scenario_B =
     \<lparr> params = (), n_estimators = 5,
       estimators = Some [\<lambda>x. 0, \<lambda>x. 0, \<lambda>x. 0, \<lambda>x. 1, \<lambda>x. 1],
       classes = Some [0, 1],
       vote_weights = \<lparr> dtype = int64, data = [1, 1, 1, 1, 1] \<rparr> \<rparr>"

text \<open>Scenario C: scenario B after appending five members of weight 2 that vote 1.\<close>

definition scenario_C :: "(unit, nat, int) updatable_forest" where
  "scenario_C = snd (fit_new_data const_trainer 1 2 (kw_trees 5) scenario_B)"


text \<open>The object that the fourth cell of the notebook constructs, before it is fitted.\<close>

definition kw_cell4 :: "unit kwargs" where
  "kw_cell4 = \<lparr> kw_n_estimators = Some 10, kw_init_vote_weight = Some 1, kw_other = () \<rparr>"

definition unfitted_cell4 :: "(unit, nat, int) updatable_forest" where
  "unfitted_cell4 =
     \<lparr> params = (), n_estimators = 10, estimators = None, classes = None,
       vote_weights = \<lparr> dtype = int64, data = [1, 1, 1, 1, 1, 1, 1, 1, 1, 1] \<rparr> \<rparr>"


section \<open>Properties\<close>

subsection \<open>Concatenating arrays of weights\<close>

lemma np_concatenate_length:
  "length (data (np_concatenate a b)) = length (data a) + length (data b)"
  by (simp add: np_concatenate_def astype_def Let_def)


lemma np_concatenate_int64:
  assumes "dtype a = int64" and "dtype b = int64"
  shows "np_concatenate a b = \<lparr> dtype = int64, data = data a @ data b \<rparr>"
  using assms by (simp add: np_concatenate_def astype_def promote_types_def Let_def)

lemma dtype_of_int_fits: "fits_int64 w \<Longrightarrow> dtype_of_int w = int64"
  by (simp add: dtype_of_int_def)

subsection \<open>What a call of \<open>fit_new_data\<close> does\<close>

lemma fit_new_data_success:
  assumes "fit_new_data train d w kwargs s = (Inr u, s')"
  shows "\<exists>grow cls old.
           kw_init_vote_weight kwargs = None \<and> 0 < new_batch_size kwargs \<and>
           train (kw_other kwargs) d = Inr (grow, cls) \<and> estimators s = Some old \<and>
           s' = s\<lparr>n_estimators := n_estimators s + new_batch_size kwargs,
                  estimators := Some (old @ map grow [0..<nat (new_batch_size kwargs)]),
                  vote_weights :=
                    np_concatenate (vote_weights s)
                      \<lparr> dtype = dtype_of_int w,
                        data = replicate (nat (new_batch_size kwargs)) w \<rparr>\<rparr>"
  using assms
  by (auto simp: fit_new_data_def RandomForestClassifier_def fit_def np_repeat_def Let_def
           new_batch_size_def
           split: sum.splits prod.splits if_splits option.splits)

lemma fit_new_data_failure:
  assumes "fit_new_data train d w kwargs s = (Inl e, s')" and "estimators s = Some old"
  shows "s' = s"
  using assms
  by (auto simp: fit_new_data_def RandomForestClassifier_def fit_def np_repeat_def Let_def
           split: sum.splits prod.splits if_splits option.splits)

lemma fit_new_data_run:
  assumes "kw_init_vote_weight kwargs = None" and "0 < new_batch_size kwargs"
    and "train (kw_other kwargs) d = Inr (grow, cls)" and "estimators s = Some old"
  shows "fit_new_data train d w kwargs s =
           (Inr (),
            s\<lparr>n_estimators := n_estimators s + new_batch_size kwargs,
              estimators := Some (old @ map grow [0..<nat (new_batch_size kwargs)]),
              vote_weights :=
                np_concatenate (vote_weights s)
                  \<lparr> dtype = dtype_of_int w,
                    data = replicate (nat (new_batch_size kwargs)) w \<rparr>\<rparr>)"
  using assms
  by (auto simp: fit_new_data_def RandomForestClassifier_def fit_def np_repeat_def Let_def
           new_batch_size_def
           split: sum.splits prod.splits if_splits option.splits)

lemma fit_new_data_empty_batch:
  assumes "new_batch_size kwargs \<le> 0"
  shows "\<exists>e. fit_new_data train d w kwargs s = (Inl e, s)"
  using assms
  by (auto simp: fit_new_data_def RandomForestClassifier_def fit_def np_repeat_def Let_def
           new_batch_size_def
           split: sum.splits prod.splits if_splits option.splits)

lemma fit_new_data_cases:
  assumes "estimators s = Some old"
  obtains (fail) e where "fit_new_data train d w kwargs s = (Inl e, s)"
  | (ok) grow where "0 < new_batch_size kwargs"
      "fit_new_data train d w kwargs s = (Inr (),
         s\<lparr>n_estimators := n_estimators s + new_batch_size kwargs,
           estimators := Some (old @ map grow [0..<nat (new_batch_size kwargs)]),
           vote_weights :=
             np_concatenate (vote_weights s)
               \<lparr> dtype = dtype_of_int w,
                 data = replicate (nat (new_batch_size kwargs)) w \<rparr>\<rparr>)"
proof (cases "fit_new_data train d w kwargs s")
  case (Pair r s')
  show thesis
  proof (cases r)
    case (Inl e)
    with Pair assms have "s' = s" by (auto dest: fit_new_data_failure)
    with Pair Inl fail show thesis by simp
  next
    case (Inr u)
    with Pair fit_new_data_success [of train d w kwargs s u s'] assms ok show thesis
      by auto
  qed
qed

lemma appends_paired:
  assumes "estimators s = Some es" and "length es = length (data (vote_weights s))"
  shows "\<exists>es'. estimators (appends train calls s) = Some es' \<and>
               length es' = length (data (vote_weights (appends train calls s)))"
  using assms
proof (induction calls arbitrary: s es)
  case Nil
  then show ?case by (simp add: appends_def)
next
  case (Cons c calls)
  obtain d w kwargs where c: "c = (d, w, kwargs)" by (cases c)
  have step: "appends train (c # calls) s = appends train calls (snd (fit_new_data train d w kwargs s))"
    by (simp add: appends_def c)
  from Cons.prems(1) show ?case
  proof (cases rule: fit_new_data_cases [where train = train and d = d and w = w and kwargs = kwargs])
    case (fail e)
    with Cons step show ?thesis by simp
  next
    case (ok grow)
    let ?s' = "snd (fit_new_data train d w kwargs s)"
    from ok Cons.prems have "estimators ?s' = Some (es @ map grow [0..<nat (new_batch_size kwargs)])"
      and "length (es @ map grow [0..<nat (new_batch_size kwargs)])
             = length (data (vote_weights ?s'))"
      by (simp_all add: np_concatenate_length)
    from Cons.IH [OF this] step show ?thesis by simp
  qed
qed

lemma init_shape:
  assumes "UpdatableRandomForestClassifier kwargs = Inr s0"
  shows "estimators s0 = None \<and> 0 \<le> n_estimators s0 \<and>
         data (vote_weights s0) = replicate (nat (n_estimators s0))
            (case kw_init_vote_weight kwargs of None \<Rightarrow> 1 | Some w \<Rightarrow> w)"
  using assms
  by (auto simp: UpdatableRandomForestClassifier_def RandomForestClassifier_def np_repeat_def
        Let_def forest.defs updatable_forest.defs split: if_splits sum.splits)

lemma fit_shape:
  assumes "fit train d s = (Inr u, s')"
  shows "\<exists>grow cls. train (params s) d = Inr (grow, cls) \<and> 0 < n_estimators s \<and>
      s' = s\<lparr>classes := Some cls, estimators := Some (map grow [0..<nat (n_estimators s)])\<rparr>"
  using assms
  by (auto simp: fit_def Let_def split: sum.splits prod.splits if_splits)

lemma scenario_C_run:
  "fit_new_data const_trainer 1 2 (kw_trees 5) scenario_B = (Inr (), scenario_C)"
  unfolding scenario_C_def
  by (simp add: fit_new_data_def RandomForestClassifier_def fit_def np_repeat_def
        kw_trees_def const_trainer_def scenario_B_def)

subsection \<open>Appending and the earlier batches\<close>




subsection \<open>The weight is not checked\<close>

text \<open>
  Claim C2 says that \<^verbatim>\<open>fit_new_data\<close> with weight 0 fails and changes nothing. The method
  has no check of \<^verbatim>\<open>vote_weight\<close>: on scenario B, a batch of five members with weight 0 is
  appended, and the weights grow from five entries to ten.
\<close>

theorem fit_new_data_weight_zero_counterexample:
  "fst (fit_new_data const_trainer 1 0 (kw_trees 5) scenario_B) = Inr () \<and>
   vote_weights (snd (fit_new_data const_trainer 1 0 (kw_trees 5) scenario_B))
     = \<lparr> dtype = int64, data = [1, 1, 1, 1, 1, 0, 0, 0, 0, 0] \<rparr> \<and>
   vote_weights scenario_B = \<lparr> dtype = int64, data = [1, 1, 1, 1, 1] \<rparr>"
  by code_simp

text \<open>
  Claim C2 as amended. On an ensemble that has members, \<^verbatim>\<open>fit_new_data\<close> succeeds for every
  integer weight, also 0 and the negative ones, as soon as the new forest accepts its keyword
  arguments, is asked for at least one tree and the trainer accepts the data: the members of
  the batch are appended, and the weights become the concatenation, as numpy arrays, of the
  earlier weights and one copy of the weight per new member. When the earlier weights are
  \<^verbatim>\<open>int64\<close> and the weight fits into 64 bits with sign, that concatenation is the earlier
  weights followed by the copies of the weight, as given. An empty batch (no tree asked for)
  fails, and every failing call returns the ensemble as it was.
\<close>

theorem fit_new_data_no_weight_check:
  assumes "estimators s = Some es"
  shows "(kw_init_vote_weight kwargs = None \<and> 0 < new_batch_size kwargs \<and>
          train (kw_other kwargs) d = Inr (grow, cls) \<longrightarrow>
            fit_new_data train d w kwargs s =
              (Inr (),
               s\<lparr>n_estimators := n_estimators s + new_batch_size kwargs,
                 estimators := Some (es @ map grow [0..<nat (new_batch_size kwargs)]),
                 vote_weights :=
                   np_concatenate (vote_weights s)
                     \<lparr> dtype = dtype_of_int w,
                       data = replicate (nat (new_batch_size kwargs)) w \<rparr>\<rparr>)) \<and>
         (dtype (vote_weights s) = int64 \<and> fits_int64 w \<longrightarrow>
            np_concatenate (vote_weights s)
              \<lparr> dtype = dtype_of_int w, data = replicate (nat (new_batch_size kwargs)) w \<rparr>
            = \<lparr> dtype = int64,
                data = data (vote_weights s) @ replicate (nat (new_batch_size kwargs)) w \<rparr>) \<and>
         (new_batch_size kwargs \<le> 0 \<longrightarrow> (\<exists>e. fit_new_data train d w kwargs s = (Inl e, s))) \<and>
         (\<forall>e s'. fit_new_data train d w kwargs s = (Inl e, s') \<longrightarrow> s' = s)"
proof -
  have "np_concatenate (vote_weights s)
          \<lparr> dtype = dtype_of_int w, data = replicate (nat (new_batch_size kwargs)) w \<rparr>
        = \<lparr> dtype = int64,
            data = data (vote_weights s) @ replicate (nat (new_batch_size kwargs)) w \<rparr>"
    if "dtype (vote_weights s) = int64 \<and> fits_int64 w"
    using that by (simp add: np_concatenate_int64 dtype_of_int_fits)
  with assms fit_new_data_run [of kwargs train d grow cls s es w]
    fit_new_data_empty_batch [of kwargs train d w s]
    fit_new_data_failure [of train d w kwargs s _ _ es]
  show ?thesis by blast
qed

theorem fit_new_data_no_weight_check_witness:
  "estimators scenario_B = Some [\<lambda>x. 0, \<lambda>x. 0, \<lambda>x. 0, \<lambda>x. 1, \<lambda>x. 1] \<and>
   new_batch_size (kw_trees 5) = 5 \<and>
   dtype (vote_weights scenario_B) = int64 \<and> fits_int64 (- 3) \<and>
   fst (fit_new_data const_trainer 1 (- 3) (kw_trees 5) scenario_B) = Inr () \<and>
   vote_weights (snd (fit_new_data const_trainer 1 (- 3) (kw_trees 5) scenario_B))
     = \<lparr> dtype = int64, data = [1, 1, 1, 1, 1] @ replicate 5 (- 3) \<rparr> \<and>
   (\<exists>e. fit_new_data const_trainer 1 0 (kw_trees 0) scenario_B = (Inl e, scenario_B))"
proof -
  have es: "estimators scenario_B = Some [\<lambda>x. 0, \<lambda>x. 0, \<lambda>x. 0, \<lambda>x. 1, \<lambda>x. 1]"
    by (simp add: scenario_B_def)
  have tr: "kw_init_vote_weight (kw_trees 5) = None \<and> 0 < new_batch_size (kw_trees 5) \<and>
       const_trainer (kw_other (kw_trees 5)) 1 = Inr (\<lambda>i x. 1, [0, 1])"
    by (simp add: kw_trees_def new_batch_size_def const_trainer_def)
  have n5: "new_batch_size (kw_trees 5) = 5" and n0: "new_batch_size (kw_trees 0) \<le> 0"
    by (simp_all add: kw_trees_def new_batch_size_def)
  have ws: "data (vote_weights scenario_B) = [1, 1, 1, 1, 1]"
    and dt: "dtype (vote_weights scenario_B) = int64"
    by (simp_all add: scenario_B_def)
  have fits: "fits_int64 (- 3)"
    by (simp add: fits_int64_def)
  note inst = fit_new_data_no_weight_check [OF es, of "kw_trees 5" const_trainer 1 "\<lambda>i x. 1" "[0, 1]" "- 3"]
  from inst tr
  have run: "fit_new_data const_trainer 1 (- 3) (kw_trees 5) scenario_B =
      (Inr (),
       scenario_B\<lparr>n_estimators := n_estimators scenario_B + new_batch_size (kw_trees 5),
         estimators := Some ([\<lambda>x. 0, \<lambda>x. 0, \<lambda>x. 0, \<lambda>x. 1, \<lambda>x. 1]
                              @ map (\<lambda>i x. 1) [0..<nat (new_batch_size (kw_trees 5))]),
         vote_weights :=
           np_concatenate (vote_weights scenario_B)
             \<lparr> dtype = dtype_of_int (- 3),
               data = replicate (nat (new_batch_size (kw_trees 5))) (- 3) \<rparr>\<rparr>)"
    by blast
  from inst dt fits
  have cat: "np_concatenate (vote_weights scenario_B)
             \<lparr> dtype = dtype_of_int (- 3),
               data = replicate (nat (new_batch_size (kw_trees 5))) (- 3) \<rparr>
        = \<lparr> dtype = int64,
            data = data (vote_weights scenario_B) @ replicate (nat (new_batch_size (kw_trees 5))) (- 3) \<rparr>"
    by blast
  from run have a: "fst (fit_new_data const_trainer 1 (- 3) (kw_trees 5) scenario_B) = Inr ()"
    by simp
  from run cat n5 ws
  have b: "vote_weights (snd (fit_new_data const_trainer 1 (- 3) (kw_trees 5) scenario_B))
     = \<lparr> dtype = int64, data = [1, 1, 1, 1, 1] @ replicate 5 (- 3) \<rparr>"
    by simp
  from fit_new_data_no_weight_check [OF es, of "kw_trees 0" const_trainer 1 _ _ 0] n0
  have c: "\<exists>e. fit_new_data const_trainer 1 0 (kw_trees 0) scenario_B = (Inl e, scenario_B)"
    by blast
  from es n5 dt fits a b c show ?thesis by blast
qed

subsection \<open>One weight per member\<close>

text \<open>
  Claim C3 says that members and weights have the same length already after construction.
  The constructor allocates the weights for the trees that \<^verbatim>\<open>fit\<close> will grow: the object of
  the fourth cell has ten weights and no members yet.
\<close>

theorem unfitted_lengths_counterexample:
  "UpdatableRandomForestClassifier kw_cell4 = Inr unfitted_cell4 \<and>
   estimators unfitted_cell4 = None \<and>
   length (data (vote_weights unfitted_cell4)) = 10"
  by (simp add: UpdatableRandomForestClassifier_def RandomForestClassifier_def np_repeat_def
        dtype_of_int_def fits_int64_def
        kw_cell4_def unfitted_cell4_def forest.defs updatable_forest.defs eval_nat_numeral)

text \<open>
  Claim C3 as amended. After construction there are no members, and the weights are as many
  as \<^verbatim>\<open>n_estimators\<close>. After the first fit and after every later \<^verbatim>\<open>fit_new_data\<close>,
  successful or not, there are as many members as weights. Each successful
  \<^verbatim>\<open>fit_new_data\<close> extends both sequences by the size of the new batch: the members by the
  batch, the weights by concatenation with one copy of the weight per member of the batch.
\<close>

theorem weights_paired_with_members:
  assumes "UpdatableRandomForestClassifier kwargs = Inr s0"
    and "fit train d s0 = (Inr (), s1)"
  shows "estimators s0 = None \<and> int (length (data (vote_weights s0))) = n_estimators s0 \<and>
         (\<forall>calls. \<exists>es. estimators (appends train calls s1) = Some es \<and>
                    length es = length (data (vote_weights (appends train calls s1)))) \<and>
         (\<forall>s es d' w kwargs' s'.
            estimators s = Some es \<and> fit_new_data train d' w kwargs' s = (Inr (), s') \<longrightarrow>
            (\<exists>batch. int (length batch) = new_batch_size kwargs' \<and>
                     estimators s' = Some (es @ batch) \<and>
                     vote_weights s' =
                       np_concatenate (vote_weights s)
                         \<lparr> dtype = dtype_of_int w, data = replicate (length batch) w \<rparr> \<and>
                     length (data (vote_weights s')) =
                       length (data (vote_weights s)) + length batch))"
proof -
  from init_shape [OF assms(1)] have s0: "estimators s0 = None" "0 \<le> n_estimators s0"
    and w0: "length (data (vote_weights s0)) = nat (n_estimators s0)"
    by simp_all
  from fit_shape [OF assms(2)] obtain grow cls where
    s1: "s1 = s0\<lparr>classes := Some cls, estimators := Some (map grow [0..<nat (n_estimators s0)])\<rparr>"
    by blast
  have e1: "estimators s1 = Some (map grow [0..<nat (n_estimators s0)])"
    and l1: "length (map grow [0..<nat (n_estimators s0)]) = length (data (vote_weights s1))"
    using s1 w0 by simp_all
  have later: "\<exists>es. estimators (appends train calls s1) = Some es \<and>
                    length es = length (data (vote_weights (appends train calls s1)))" for calls
    using appends_paired [OF e1 l1] .
  have grows: "\<exists>batch. int (length batch) = new_batch_size kwargs' \<and>
                     estimators s' = Some (es @ batch) \<and>
                     vote_weights s' =
                       np_concatenate (vote_weights s)
                         \<lparr> dtype = dtype_of_int w, data = replicate (length batch) w \<rparr> \<and>
                     length (data (vote_weights s')) =
                       length (data (vote_weights s)) + length batch"
    if "estimators s = Some es" and "fit_new_data train d' w kwargs' s = (Inr (), s')"
    for s es d' w kwargs' s'
    using fit_new_data_success [OF that(2)] that(1) by (auto simp: np_concatenate_length)
  from s0 w0 later grows show ?thesis by auto
qed

theorem weights_paired_with_members_witness:
  "UpdatableRandomForestClassifier kw_cell4 = Inr unfitted_cell4 \<and>
   fst (fit const_trainer 0 unfitted_cell4) = Inr () \<and>
   int (length (data (vote_weights unfitted_cell4))) = 10 \<and>
   (\<exists>es. estimators (appends const_trainer [(1, 2, kw_trees 5)]
                        (snd (fit const_trainer 0 unfitted_cell4))) = Some es \<and>
         length es = 15 \<and>
         length (data (vote_weights (appends const_trainer [(1, 2, kw_trees 5)]
                        (snd (fit const_trainer 0 unfitted_cell4))))) = 15) \<and>
   fit_new_data const_trainer 1 2 (kw_trees 5) scenario_B = (Inr (), scenario_C) \<and>
   (\<exists>batch :: nat tree list. int (length batch) = 5 \<and>
            length (data (vote_weights scenario_C)) = 5 + length batch)"
proof -
  let ?s1 = "snd (fit const_trainer 0 unfitted_cell4)"
  let ?s2 = "appends const_trainer [(1, 2, kw_trees 5)] ?s1"
  have init: "UpdatableRandomForestClassifier kw_cell4 = Inr unfitted_cell4"
    by (simp add: UpdatableRandomForestClassifier_def RandomForestClassifier_def np_repeat_def
          dtype_of_int_def fits_int64_def
          kw_cell4_def unfitted_cell4_def forest.defs updatable_forest.defs eval_nat_numeral)
  have ok: "fst (fit const_trainer 0 unfitted_cell4) = Inr ()"
    by (simp add: fit_def const_trainer_def unfitted_cell4_def)
  then have fitted: "fit const_trainer 0 unfitted_cell4 = (Inr (), ?s1)"
    by (simp add: prod_eq_iff)
  have n: "n_estimators unfitted_cell4 = 10"
    by (simp add: unfitted_cell4_def)
  have len: "length (data (vote_weights ?s2)) = 15"
    by (simp add: appends_def fit_new_data_def RandomForestClassifier_def fit_def np_repeat_def
          np_concatenate_length kw_trees_def const_trainer_def unfitted_cell4_def)
  have esB: "estimators scenario_B = Some [\<lambda>x. 0, \<lambda>x. 0, \<lambda>x. 0, \<lambda>x. 1, \<lambda>x. 1]"
    and wsB: "length (data (vote_weights scenario_B)) = 5"
    by (simp_all add: scenario_B_def)
  have n5: "new_batch_size (kw_trees 5) = 5"
    by (simp add: new_batch_size_def kw_trees_def)
  note all = weights_paired_with_members [OF init fitted]
  from all have a: "int (length (data (vote_weights unfitted_cell4))) = n_estimators unfitted_cell4"
    and later: "\<forall>calls. \<exists>es. estimators (appends const_trainer calls ?s1) = Some es \<and>
                  length es = length (data (vote_weights (appends const_trainer calls ?s1)))"
    by blast+
  from later have "\<exists>es. estimators ?s2 = Some es \<and> length es = length (data (vote_weights ?s2))"
    by (rule spec)
  with len have b: "\<exists>es. estimators ?s2 = Some es \<and> length es = 15 \<and>
                     length (data (vote_weights ?s2)) = 15"
    by auto
  from all [THEN conjunct2, THEN conjunct2, THEN conjunct2, rule_format,
      of scenario_B _ 1 2 "kw_trees 5" scenario_C, OF conjI [OF esB scenario_C_run]]
  obtain batch :: "nat tree list" where "int (length batch) = new_batch_size (kw_trees 5)"
    and "length (data (vote_weights scenario_C)) = length (data (vote_weights scenario_B)) + length batch"
    by blast
  with n5 wsB have c: "\<exists>batch :: nat tree list. int (length batch) = 5 \<and>
            length (data (vote_weights scenario_C)) = 5 + length batch"
    by auto
  from init ok a n b scenario_C_run c show ?thesis by simp
qed

subsection \<open>Predictions stay inside the class table\<close>

lemma np_take_subset:
  assumes "np_take a indices = Inr ys"
  shows "set ys \<subseteq> set a"
proof -
  let ?n = "int (length a)"
  from assms have range: "\<forall>i \<in> set indices. - ?n \<le> i \<and> i < ?n"
    and ys: "ys = map (\<lambda>i. a ! nat (if i < 0 then i + ?n else i)) indices"
    by (auto simp: np_take_def Let_def split: if_splits)
  have "a ! nat (if i < 0 then i + ?n else i) \<in> set a" if "i \<in> set indices" for i
  proof -
    from range that have "nat (if i < 0 then i + ?n else i) < length a"
      by auto
    then show ?thesis by (rule nth_mem)
  qed
  with ys show ?thesis by auto
qed

lemma np_take_length: "np_take a indices = Inr ys \<Longrightarrow> length ys = length indices"
  by (auto simp: np_take_def Let_def split: if_splits)

text \<open>
  Claim C10. Every label that \<^verbatim>\<open>predict_votes\<close> returns is an entry of the class table
  \<^verbatim>\<open>classes_\<close> of the ensemble, because the modes are only used as indices into it; and
  \<^verbatim>\<open>fit_new_data\<close> never changes the class table, whether it succeeds or fails.
\<close>

theorem predict_votes_in_classes:
  "(\<forall>ys. predict_votes s X = Inr ys \<longrightarrow> (\<exists>cls. classes s = Some cls \<and> set ys \<subseteq> set cls)) \<and>
   classes (snd (fit_new_data train d w kwargs s)) = classes s"
proof
  show "\<forall>ys. predict_votes s X = Inr ys \<longrightarrow> (\<exists>cls. classes s = Some cls \<and> set ys \<subseteq> set cls)"
    by (auto simp: predict_votes_def split: option.splits if_splits sum.splits list.splits
          dest: np_take_subset)
  show "classes (snd (fit_new_data train d w kwargs s)) = classes s"
    by (simp add: fit_new_data_def Let_def split: sum.splits prod.splits option.splits)
qed

theorem predict_votes_in_classes_witness:
  "predict_votes scenario_C [0, 1] = Inr [1, 1] \<and>
   classes scenario_B = Some [0, 1] \<and> classes scenario_C = Some [0, 1] \<and>
   set [1, 1 :: int] \<subseteq> set [0, 1]"
proof -
  have p: "predict_votes scenario_C [0, 1] = Inr [1, 1]"
    by code_simp
  have b: "classes scenario_B = Some [0, 1]"
    by (simp add: scenario_B_def)
  from predict_votes_in_classes [of scenario_B _ const_trainer 1 2 "kw_trees 5"]
  have "classes scenario_C = classes scenario_B"
    by (simp add: scenario_C_def)
  with b have c: "classes scenario_C = Some [0, 1]"
    by simp
  from predict_votes_in_classes [of scenario_C "[0, 1]", THEN conjunct1, rule_format, OF p]
  obtain cls where "classes scenario_C = Some cls" and "set [1, 1 :: int] \<subseteq> set cls"
    by auto
  with c have "set [1, 1 :: int] \<subseteq> set [0, 1]"
    by simp
  with p b c show ?thesis
    by blast
qed

subsection \<open>The mode loop\<close>





subsection \<open>The weighted rows\<close>


lemma np_repeat_axis0_rows: "np_repeat_axis0 a repeats = Inr b \<Longrightarrow> set b \<subseteq> set a"
  by (auto simp: np_repeat_axis0_def split: if_splits dest: set_zip_leftD)








subsection \<open>Predictions of an initialized ensemble\<close>




lemma predict_votes_length:
  assumes "predict_votes s X = Inr ys"
  shows "length ys = length X \<and> X \<noteq> []"
proof -
  from assms obtain cls b modes rest where b: "all_preds s X = Inr b"
    and m: "fst (mode b) = modes # rest" and t: "np_take cls modes = Inr ys"
    by (auto simp: predict_votes_def split: option.splits sum.splits list.splits)
  from b obtain es where X: "X \<noteq> []"
    and rep: "np_repeat_axis0 (map (\<lambda>e. map e X) es) (vote_weights s) = Inr b"
    by (auto simp: all_preds_def split: option.splits if_splits)
  from m have b: "b \<noteq> []" and "modes = map fst (map (\<lambda>j. fold (mode_step (column j b))
       (sort (remdups (concat b))) (0, 0)) [0..<length (hd b)])"
    by (auto simp: mode_def Let_def split: if_splits)
  then have "length modes = length (hd b)" by simp
  moreover from b have "hd b \<in> set b" by (rule hd_in_set)
  with np_repeat_axis0_rows [OF rep] have "hd b \<in> set (map (\<lambda>e. map e X) es)"
    by (rule subsetD)
  then have "length (hd b) = length X" by auto
  moreover from t have "length ys = length modes" by (rule np_take_length)
  ultimately show ?thesis using X by simp
qed






subsection \<open>What a query tallies\<close>



subsection \<open>The weighted mode\<close>





subsection \<open>Scoring\<close>

lemma count_True_map: "count_list (map f xs) True = length (filter f xs)"
  by (induction xs) simp_all

lemma np_eq_same_length:
  "length p = length y \<Longrightarrow> np_eq p y = Inr (map (\<lambda>(a, b). a = b) (zip p y))"
  by (simp add: np_eq_def)

lemma np_eq_mismatch:
  "length p \<noteq> length y \<Longrightarrow> length p \<noteq> 1 \<Longrightarrow> length y \<noteq> 1 \<Longrightarrow> np_eq p y = Inl TypeError"
  by (simp add: np_eq_def)

text \<open>
  Claim C9. \<^verbatim>\<open>score_votes\<close> scores the predictions of the object bound to the global name
  \<^verbatim>\<open>rf\<close>: whatever the receiver is, for samples and labels of the same length the result is
  the number of positions where the prediction of \<^verbatim>\<open>rf\<close> equals the label, divided by the
  number of labels, which is also what the call on \<^verbatim>\<open>rf\<close> itself returns.
\<close>

theorem score_votes_uses_global_rf:
  assumes "predict_votes r X = Inr p" and "length y = length X"
  shows "score_votes (Some r) self X y = Inr (of_nat (matches p y) / of_nat (length y)) \<and>
         score_votes (Some r) self X y = score_votes (Some r) r X y"
proof -
  from predict_votes_length [OF assms(1)] assms(2) have "length p = length y" and "y \<noteq> []"
    by auto
  with assms(1) show ?thesis
    by (simp add: score_votes_def np_eq_same_length count_True_map matches_def)
qed

theorem score_votes_uses_global_rf_witness:
  "predict_votes scenario_B [0, 1] = Inr [0, 0] \<and>
   predict_votes scenario_C [0, 1] = Inr [1, 1] \<and>
   matches [0, 0] [1, 1 :: int] = 0 \<and>
   score_votes (Some scenario_B) scenario_C [0, 1] [1, 1] = Inr 0"
proof -
  have b: "predict_votes scenario_B [0, 1] = Inr [0, 0]"
    by code_simp
  have c: "predict_votes scenario_C [0, 1] = Inr [1, 1]"
    by code_simp
  have m: "matches [0, 0] [1, 1 :: int] = 0"
    by (simp add: matches_def)
  have l: "length [1, 1 :: int] = length [0, 1 :: nat]"
    by simp
  from score_votes_uses_global_rf [OF b l, of scenario_C] m
  have "score_votes (Some scenario_B) scenario_C [0, 1] [1, 1] = Inr 0"
    by simp
  with b c m show ?thesis by (intro conjI)
qed

text \<open>
  Claim C6 does not hold for a receiver other than \<^verbatim>\<open>rf\<close>. With scenario B bound to
  \<^verbatim>\<open>rf\<close>, the ensemble of scenario C predicts \<open>[1, 1]\<close> on two samples, every prediction
  equal to the true labels \<open>[1, 1]\<close>, and \<^verbatim>\<open>score_votes\<close> called on it returns 0.
\<close>

theorem score_votes_other_instance:
  "predict_votes scenario_C [0, 1] = Inr [1, 1] \<and>
   score_votes (Some scenario_B) scenario_C [0, 1] [1, 1] = Inr 0"
  by code_simp

lemma np_eq_broadcast:
  "length p = length y \<or> length p = 1 \<or> length y = 1 \<Longrightarrow> \<exists>eq. np_eq p y = Inr eq"
  by (auto simp: np_eq_def)

text \<open>
  Claim C7 says that \<^verbatim>\<open>score_votes\<close> fails whenever the numbers of samples and of labels
  differ. A side of length one is broadcast by the comparison: three samples against one
  label give the number 3.
\<close>

theorem score_votes_broadcast_counterexample:
  "length [0, 1, 2 :: nat] = 3 \<and> length [0 :: int] = 1 \<and>
   score_votes (Some scenario_B) scenario_B [0, 1, 2] [0] = Inr 3"
  by code_simp

text \<open>
  Claim C7 as amended. \<^verbatim>\<open>score_votes\<close> fails whenever there are no samples or no labels,
  and whenever the numbers of samples and of labels differ and neither of them is one. When
  one of the two numbers is one, there is at least one label, and \<^verbatim>\<open>rf\<close> predicts the
  samples, the comparison is broadcast and \<^verbatim>\<open>score_votes\<close> returns a number.
\<close>

theorem score_votes_length_mismatch:
  "(X = [] \<or> y = [] \<or> (length X \<noteq> length y \<and> length X \<noteq> 1 \<and> length y \<noteq> 1)
      \<longrightarrow> (\<exists>e. score_votes rf self X y = Inl e)) \<and>
   (\<forall>r p. rf = Some r \<and> predict_votes r X = Inr p \<and> y \<noteq> [] \<and>
           (length X = 1 \<or> length y = 1)
      \<longrightarrow> (\<exists>q. score_votes rf self X y = Inr q))"
proof (intro conjI allI impI)
  assume bad: "X = [] \<or> y = [] \<or> (length X \<noteq> length y \<and> length X \<noteq> 1 \<and> length y \<noteq> 1)"
  show "\<exists>e. score_votes rf self X y = Inl e"
  proof (cases rf)
    case None
    then show ?thesis by (simp add: score_votes_def)
  next
    case (Some r)
    show ?thesis
    proof (cases "predict_votes r X")
      case (Inl e)
      with Some show ?thesis by (simp add: score_votes_def)
    next
      case (Inr p)
      from predict_votes_length [OF Inr] have p: "length p = length X" and X: "X \<noteq> []"
        by simp_all
      show ?thesis
      proof (cases "y = []")
        case True
        with Some Inr show ?thesis
          by (simp add: score_votes_def split: sum.splits)
      next
        case False
        with bad X p have "np_eq p y = Inl TypeError"
          by (simp add: np_eq_mismatch)
        with Some Inr show ?thesis by (simp add: score_votes_def)
      qed
    qed
  qed
next
  fix r p
  assume h: "rf = Some r \<and> predict_votes r X = Inr p \<and> y \<noteq> [] \<and>
             (length X = 1 \<or> length y = 1)"
  then have p: "predict_votes r X = Inr p" by simp
  from predict_votes_length [OF p] have "length p = length X" by simp
  with h have "length p = length y \<or> length p = 1 \<or> length y = 1" by auto
  then obtain eq where "np_eq p y = Inr eq" using np_eq_broadcast by blast
  with h show "\<exists>q. score_votes rf self X y = Inr q"
    by (simp add: score_votes_def)
qed

theorem score_votes_length_mismatch_witness:
  "length [0, 1, 2 :: nat] \<noteq> length [0, 1 :: int] \<and>
   (\<exists>e. score_votes (Some scenario_B) scenario_B [0, 1, 2] [0, 1] = Inl e) \<and>
   (\<exists>e. score_votes (Some scenario_B) scenario_B [] [0] = Inl e) \<and>
   (\<exists>e. score_votes (Some scenario_B) scenario_B [0] [] = Inl e) \<and>
   predict_votes scenario_B [0, 1, 2] = Inr [0, 0, 0] \<and>
   (\<exists>q. score_votes (Some scenario_B) scenario_B [0, 1, 2] [0] = Inr q)"
proof -
  have h1: "[0, 1, 2 :: nat] = [] \<or> [0, 1 :: int] = [] \<or>
       (length [0, 1, 2 :: nat] \<noteq> length [0, 1 :: int] \<and>
        length [0, 1, 2 :: nat] \<noteq> 1 \<and> length [0, 1 :: int] \<noteq> 1)"
    by simp
  have h2: "([] :: nat list) = [] \<or> [0 :: int] = [] \<or>
       (length ([] :: nat list) \<noteq> length [0 :: int] \<and>
        length ([] :: nat list) \<noteq> 1 \<and> length [0 :: int] \<noteq> 1)"
    by simp
  have h3: "[0 :: nat] = [] \<or> ([] :: int list) = [] \<or>
       (length [0 :: nat] \<noteq> length ([] :: int list) \<and>
        length [0 :: nat] \<noteq> 1 \<and> length ([] :: int list) \<noteq> 1)"
    by simp
  have p: "predict_votes scenario_B [0, 1, 2] = Inr [0, 0, 0]"
    by code_simp
  have h4: "Some scenario_B = Some scenario_B \<and>
       predict_votes scenario_B [0, 1, 2] = Inr [0, 0, 0] \<and> [0 :: int] \<noteq> [] \<and>
       (length [0, 1, 2 :: nat] = 1 \<or> length [0 :: int] = 1)"
    using p by simp
  have d: "length [0, 1, 2 :: nat] \<noteq> length [0, 1 :: int]" by simp
  note fails = score_votes_length_mismatch [THEN conjunct1, rule_format]
  note number = score_votes_length_mismatch [THEN conjunct2, rule_format]
  from d fails [of "[0, 1, 2]" "[0, 1]" "Some scenario_B" scenario_B, OF h1]
    fails [of "[]" "[0]" "Some scenario_B" scenario_B, OF h2]
    fails [of "[0]" "[]" "Some scenario_B" scenario_B, OF h3]
    p number [of "Some scenario_B" scenario_B "[0, 1, 2]" "[0, 0, 0]" "[0]" scenario_B, OF h4]
  show ?thesis by (intro conjI)
qed


end
